theory Spec2Isabelle
  imports Main
begin

section \<open>Python values used by \<^verbatim>\<open>pandas/core/ops/methods.py\<close>\<close>

text \<open>
  The exceptions the table-building code can raise. \<open>UnboundLocalError\<close> is what Python
  raises when a local variable is read before any assignment reached it.
\<close>

datatype error =
    UnboundLocalError string
  | AttributeError string
  | KeyError string
  | AssertionError

subsection \<open>Dictionaries\<close>

text \<open>
  A Python \<^verbatim>\<open>dict\<close> keeps its keys in insertion order; storing under a key that is
  already present replaces the value and keeps the key's position. It is modelled as an
  association list with distinct keys.
\<close>

type_synonym ('k, 'v) dict = "('k \<times> 'v) list"

primrec dict_setitem :: "('k, 'v) dict \<Rightarrow> 'k \<Rightarrow> 'v \<Rightarrow> ('k, 'v) dict" where
  "dict_setitem [] k v = [(k, v)]"
| "dict_setitem (p # ps) k v = (if fst p = k then (k, v) # ps else p # dict_setitem ps k v)"

definition dict_getitem :: "(string, 'v) dict \<Rightarrow> string \<Rightarrow> error + 'v" where
  "dict_getitem d k = (case map_of d k of None \<Rightarrow> Inl (KeyError k) | Some v \<Rightarrow> Inr v)"

definition dict_contains :: "('k, 'v) dict \<Rightarrow> 'k \<Rightarrow> bool" where
  "dict_contains d k = (map_of d k \<noteq> None)"

definition dict_update :: "('k, 'v) dict \<Rightarrow> ('k \<times> 'v) list \<Rightarrow> ('k, 'v) dict" where
  "dict_update d items = foldl (\<lambda>acc (k, v). dict_setitem acc k v) d items"

text \<open>
  \<^verbatim>\<open>dict(k1=e1, k2=e2, ...)\<close>: the argument expressions are evaluated from left to right and
  the first one that raises ends the call.
\<close>

fun kwargs :: "(string \<times> (error + 'v)) list \<Rightarrow> error + (string, 'v) dict" where
  "kwargs [] = Inr []"
| "kwargs ((k, Inl e) # rest) = Inl e"
| "kwargs ((k, Inr v) # rest) =
     (case kwargs rest of Inl e \<Rightarrow> Inl e | Inr d \<Rightarrow> Inr ((k, v) # d))"

subsection \<open>Strings\<close>

text \<open>
  \<^verbatim>\<open>s.strip(chars)\<close> removes from both ends of \<open>s\<close> every character that occurs in
  \<open>chars\<close>; \<open>chars\<close> is a set of characters, not a prefix.
\<close>

definition lstrip :: "string \<Rightarrow> string \<Rightarrow> string" where
  "lstrip chars s = dropWhile (\<lambda>c. c \<in> set chars) s"

definition rstrip :: "string \<Rightarrow> string \<Rightarrow> string" where
  "rstrip chars s = rev (dropWhile (\<lambda>c. c \<in> set chars) (rev s))"

definition strip :: "string \<Rightarrow> string \<Rightarrow> string" where
  "strip chars s = rstrip chars (lstrip chars s)"

subsection \<open>Classes\<close>

text \<open>
  A class, as far as this module looks at it: the answers of
  \<^verbatim>\<open>issubclass(cls, ABCSeries)\<close> and \<^verbatim>\<open>issubclass(cls, ABCDataFrame)\<close>, and the attributes
  visible on the class (its own and the inherited ones), of some type \<open>'m\<close> of methods.
\<close>

record 'm cls =
  is_ABCSeries :: bool
  is_ABCDataFrame :: bool
  attrs :: "(string, 'm) dict"

definition getattr :: "'m cls \<Rightarrow> string \<Rightarrow> error + 'm" where
  "getattr c nm = (case map_of (attrs c) nm of None \<Rightarrow> Inl (AttributeError nm) | Some m \<Rightarrow> Inr m)"

definition setattr :: "'m cls \<Rightarrow> string \<Rightarrow> 'm \<Rightarrow> 'm cls" where
  "setattr c nm m = c\<lparr>attrs := dict_setitem (attrs c) nm m\<rparr>"

section \<open>The operation registry\<close>

text \<open>
  The binary primitives that \<^verbatim>\<open>_create_methods\<close> hands to the wrapper factories: the
  functions of the \<^verbatim>\<open>operator\<close> module, the builtin \<^verbatim>\<open>divmod\<close>, and the reflected
  primitives imported from \<^verbatim>\<open>pandas.core.ops.roperator\<close>.
\<close>

datatype primitive =
    operator_add | operator_sub | operator_mul | operator_truediv
  | operator_floordiv | operator_mod | operator_pow
  | radd | rsub | rmul | rtruediv | rfloordiv | rmod | rpow
  | builtin_divmod | rdivmod
  | operator_eq | operator_ne | operator_lt | operator_gt | operator_le | operator_ge

text \<open>
  The three wrapper factories that \<^verbatim>\<open>_get_method_wrappers\<close> imports from
  \<^verbatim>\<open>pandas.core.ops\<close>. They are three different function objects.
\<close>

datatype wrapper = flex_arith_method_FRAME | flex_comp_method_FRAME | flex_method_SERIES

text \<open>
  \<^verbatim>\<open>_get_method_wrappers\<close> (lines 20-49). The two locals are bound in the branches of the
  \<^verbatim>\<open>if\<close>/\<^verbatim>\<open>elif\<close> only; there is no \<^verbatim>\<open>else\<close>. A local that no branch bound is
  \<open>None\<close> here, and reading it in the \<^verbatim>\<open>return\<close> raises \<open>UnboundLocalError\<close>.
\<close>

definition get_method_wrappers :: "'m cls \<Rightarrow> error + (wrapper \<times> wrapper)" where
  "get_method_wrappers c =
     (let (arith_flex, comp_flex) =
            (if is_ABCSeries c then (Some flex_method_SERIES, Some flex_method_SERIES)
             else if is_ABCDataFrame c then
               (Some flex_arith_method_FRAME, Some flex_comp_method_FRAME)
             else (None, None))
      in case arith_flex of
           None \<Rightarrow> Inl (UnboundLocalError ''arith_flex'')
         | Some a \<Rightarrow>
             (case comp_flex of
                None \<Rightarrow> Inl (UnboundLocalError ''comp_flex'')
              | Some b \<Rightarrow> Inr (a, b)))"

section \<open>The method table builder\<close>

text \<open>
  \<^verbatim>\<open>_create_methods\<close> (lines 133-179). \<open>arith_method\<close> and \<open>comp_method\<close> are the two
  wrapper factories, applied to one primitive per entry. The two subscript reads of lines
  160-161 raise \<open>KeyError\<close> on a missing key. Line 178 rebuilds the dictionary with every
  key stripped of underscores.
\<close>

definition create_methods ::
  "'c cls \<Rightarrow> (primitive \<Rightarrow> 'm) \<Rightarrow> (primitive \<Rightarrow> 'm) \<Rightarrow> error + (string, 'm) dict" where
  "create_methods c arith_method comp_method =
     (let have_divmod = is_ABCSeries c;
          new_methods = [];
          new_methods = dict_update new_methods
            [(''add'', arith_method operator_add),
             (''radd'', arith_method radd),
             (''sub'', arith_method operator_sub),
             (''mul'', arith_method operator_mul),
             (''truediv'', arith_method operator_truediv),
             (''floordiv'', arith_method operator_floordiv),
             (''mod'', arith_method operator_mod),
             (''pow'', arith_method operator_pow),
             (''rmul'', arith_method rmul),
             (''rsub'', arith_method rsub),
             (''rtruediv'', arith_method rtruediv),
             (''rfloordiv'', arith_method rfloordiv),
             (''rpow'', arith_method rpow),
             (''rmod'', arith_method rmod)]
      in (case dict_getitem new_methods ''truediv'' of
            Inl e \<Rightarrow> Inl e
          | Inr truediv \<Rightarrow>
              (let new_methods = dict_setitem new_methods ''div'' truediv
               in (case dict_getitem new_methods ''rtruediv'' of
                     Inl e \<Rightarrow> Inl e
                   | Inr rtruediv_entry \<Rightarrow>
                       (let new_methods = dict_setitem new_methods ''rdiv'' rtruediv_entry;
                            new_methods =
                              (if have_divmod then
                                 dict_setitem
                                   (dict_setitem new_methods ''divmod''
                                      (arith_method builtin_divmod))
                                   ''rdivmod'' (arith_method rdivmod)
                               else new_methods);
                            new_methods = dict_update new_methods
                              [(''eq'', comp_method operator_eq),
                               (''ne'', comp_method operator_ne),
                               (''lt'', comp_method operator_lt),
                               (''gt'', comp_method operator_gt),
                               (''le'', comp_method operator_le),
                               (''ge'', comp_method operator_ge)];
                            new_methods =
                              foldl (\<lambda>acc (k, v). dict_setitem acc (strip ''_'' k) v)
                                [] new_methods
                        in Inr new_methods)))))"

text \<open>\<^verbatim>\<open>_add_methods\<close> (lines 182-184): one \<^verbatim>\<open>setattr\<close> per entry, in the table's order.\<close>

definition add_methods :: "'m cls \<Rightarrow> (string, 'm) dict \<Rightarrow> 'm cls" where
  "add_methods c new_methods = foldl (\<lambda>acc (nm, method). setattr acc nm method) c new_methods"

text \<open>
  \<^verbatim>\<open>add_flex_arithmetic_methods\<close> (lines 108-130), in three steps. \<open>flex_aliases\<close> is
  lines 120-126 and \<open>flex_opt_out_assert\<close> the assertion of line 128, both as functions of
  the table they receive; \<open>flex_new_methods\<close> is the table that reaches line 130.

  The wrapper factories themselves live in \<^verbatim>\<open>pandas.core.ops\<close>, outside this module; what
  a factory returns for a primitive is the parameter \<open>ops\<close>.
\<close>

definition flex_aliases :: "(string, 'm) dict \<Rightarrow> error + (string, 'm) dict" where
  "flex_aliases new_methods =
     (case kwargs
        [(''multiply'', dict_getitem new_methods ''mul''),
         (''subtract'', dict_getitem new_methods ''sub''),
         (''divide'', dict_getitem new_methods ''div'')] of
        Inl e \<Rightarrow> Inl e
      | Inr aliases \<Rightarrow> Inr (dict_update new_methods aliases))"

definition flex_opt_out_assert :: "(string, 'm) dict \<Rightarrow> error + (string, 'm) dict" where
  "flex_opt_out_assert new_methods =
     (if list_ex (\<lambda>kname. dict_contains new_methods kname) [''ror_'', ''rxor'', ''rand_'']
      then Inl AssertionError
      else Inr new_methods)"

definition flex_new_methods ::
  "(wrapper \<Rightarrow> primitive \<Rightarrow> 'm) \<Rightarrow> 'm cls \<Rightarrow> error + (string, 'm) dict" where
  "flex_new_methods ops c =
     (case get_method_wrappers c of
        Inl e \<Rightarrow> Inl e
      | Inr (flex_arith_method, flex_comp_method) \<Rightarrow>
          (case create_methods c (ops flex_arith_method) (ops flex_comp_method) of
             Inl e \<Rightarrow> Inl e
           | Inr new_methods \<Rightarrow>
               (case flex_aliases new_methods of
                  Inl e \<Rightarrow> Inl e
                | Inr new_methods \<Rightarrow> flex_opt_out_assert new_methods)))"

definition add_flex_arithmetic_methods ::
  "(wrapper \<Rightarrow> primitive \<Rightarrow> 'm) \<Rightarrow> 'm cls \<Rightarrow> error + 'm cls" where
  "add_flex_arithmetic_methods ops c =
     (case flex_new_methods ops c of
        Inl e \<Rightarrow> Inl e
      | Inr new_methods \<Rightarrow> Inr (add_methods c new_methods))"

section \<open>The in-place adapter\<close>

subsection \<open>Objects, identities and the store\<close>

text \<open>
  Python objects are reached through references, and \<^verbatim>\<open>x += y\<close> is about which object
  comes back, so containers live in a store indexed by references. Of a container the
  adapter touches two things: its storage (the block manager \<^verbatim>\<open>_mgr\<close>, labels included),
  of some type \<open>'d\<close>, and its cacher linkage, of some type \<open>'c\<close>.
\<close>

type_synonym ref = nat

record ('d, 'c) ndframe =
  mgr :: 'd
  cacher :: "'c option"

type_synonym ('d, 'c) heap = "ref \<Rightarrow> ('d, 'c) ndframe"

text \<open>
  A bound binary method \<^verbatim>\<open>method(self, other)\<close>: it runs on the store, and either raises an
  exception of some type \<open>'x\<close> or returns a reference; either way it leaves a store
  behind. A Python function object carries its \<^verbatim>\<open>__name__\<close> as well.
\<close>

type_synonym ('d, 'c, 'o, 'x) binop =
  "('d, 'c) heap \<Rightarrow> ref \<Rightarrow> 'o \<Rightarrow> ('x + ref) \<times> ('d, 'c) heap"

record ('d, 'c, 'o, 'x) pyfunction =
  func_name :: string
  func_call :: "('d, 'c, 'o, 'x) binop"

text \<open>
  Modelled from the spec: \<^verbatim>\<open>NDFrame._reset_cacher\<close> is defined outside this module.
  Section 4.3, step 2: "Invalidate any cached derived view held by the receiver [...] that
  cache linkage is cleared before the mutation is committed".
\<close>

definition reset_cacher :: "('d, 'c) heap \<Rightarrow> ref \<Rightarrow> ('d, 'c) heap" where
  "reset_cacher h self = h(self := (h self)\<lparr>cacher := None\<rparr>)"

text \<open>
  Modelled from the spec: \<^verbatim>\<open>NDFrame._update_inplace\<close> is defined outside this module.
  Section 4.3, step 4: "Commit the realigned result into the receiver's underlying storage
  in place"; the call passes \<^verbatim>\<open>verify_is_copy=False\<close>, so no check of a derived view runs
  and the commit cannot fail.
\<close>

definition update_inplace :: "('d, 'c) heap \<Rightarrow> ref \<Rightarrow> 'd \<Rightarrow> ('d, 'c) heap" where
  "update_inplace h self result_mgr = h(self := (h self)\<lparr>mgr := result_mgr\<rparr>)"

subsection \<open>The wrapper\<close>

text \<open>
  The inner function \<^verbatim>\<open>f\<close> of \<^verbatim>\<open>_wrap_inplace_method\<close> (lines 69-79).
  \<^verbatim>\<open>result.reindex_like(self, copy=False)\<close> is defined outside this module as well; it is
  the parameter \<open>reindex_like\<close>, a function of the result's storage and the receiver's
  storage that yields the realigned storage or raises (the spec's alignment fault). An
  exception leaves the store as it was when it was raised.
\<close>

definition wrap_inplace_method_f ::
  "('d \<Rightarrow> 'd \<Rightarrow> 'x + 'd) \<Rightarrow> ('d, 'c, 'o, 'x) pyfunction \<Rightarrow> ('d, 'c, 'o, 'x) binop" where
  "wrap_inplace_method_f reindex_like method h self other =
     (case func_call method h self other of
        (Inl exn, h1) \<Rightarrow> (Inl exn, h1)
      | (Inr result, h1) \<Rightarrow>
          (let h2 = reset_cacher h1 self
           in (case reindex_like (mgr (h2 result)) (mgr (h2 self)) of
                 Inl exn \<Rightarrow> (Inl exn, h2)
               | Inr realigned \<Rightarrow> (Inr self, update_inplace h2 self realigned))))"

text \<open>\<^verbatim>\<open>_wrap_inplace_method\<close> (lines 64-83): the wrapper, renamed.\<close>

definition wrap_inplace_method ::
  "('d \<Rightarrow> 'd \<Rightarrow> 'x + 'd) \<Rightarrow> ('d, 'c, 'o, 'x) pyfunction \<Rightarrow> ('d, 'c, 'o, 'x) pyfunction" where
  "wrap_inplace_method reindex_like method =
     (let name = strip ''__'' (func_name method)
      in \<lparr>func_name = ''__i'' @ name @ ''__'',
          func_call = wrap_inplace_method_f reindex_like method\<rparr>)"

text \<open>
  \<^verbatim>\<open>add_special_arithmetic_methods\<close> (lines 52-105). \<open>special_new_methods\<close> is the
  dictionary built by lines 62-103; each \<^verbatim>\<open>cls.__op__\<close> is an attribute read that raises
  \<open>AttributeError\<close> when the class has no such attribute.
\<close>

definition special_new_methods ::
  "('d \<Rightarrow> 'd \<Rightarrow> 'x + 'd) \<Rightarrow> ('d, 'c, 'o, 'x) pyfunction cls
     \<Rightarrow> error + (string, ('d, 'c, 'o, 'x) pyfunction) dict" where
  "special_new_methods reindex_like c =
     (let wrapped = (\<lambda>nm. map_sum id (wrap_inplace_method reindex_like) (getattr c nm));
          new_methods = []
      in (case kwargs
            [(''__iadd__'', wrapped ''__add__''),
             (''__isub__'', wrapped ''__sub__''),
             (''__imul__'', wrapped ''__mul__''),
             (''__itruediv__'', wrapped ''__truediv__''),
             (''__ifloordiv__'', wrapped ''__floordiv__''),
             (''__imod__'', wrapped ''__mod__''),
             (''__ipow__'', wrapped ''__pow__'')] of
            Inl e \<Rightarrow> Inl e
          | Inr arithmetic \<Rightarrow>
              (let new_methods = dict_update new_methods arithmetic
               in (case kwargs
                     [(''__iand__'', wrapped ''__and__''),
                      (''__ior__'', wrapped ''__or__''),
                      (''__ixor__'', wrapped ''__xor__'')] of
                     Inl e \<Rightarrow> Inl e
                   | Inr logical \<Rightarrow> Inr (dict_update new_methods logical)))))"

definition add_special_arithmetic_methods ::
  "('d \<Rightarrow> 'd \<Rightarrow> 'x + 'd) \<Rightarrow> ('d, 'c, 'o, 'x) pyfunction cls
     \<Rightarrow> error + ('d, 'c, 'o, 'x) pyfunction cls" where
  "add_special_arithmetic_methods reindex_like c =
     (case special_new_methods reindex_like c of
        Inl e \<Rightarrow> Inl e
      | Inr new_methods \<Rightarrow> Inr (add_methods c new_methods))"

subsection \<open>The in-place law, in the spec's words\<close>


section \<open>Concrete inputs\<close>

text \<open>
  Two classes without attributes, and a small 1-D container for running the adapter: its
  storage is a list of (label, value) pairs. \<open>example_add\<close> aligns \<open>other\<close> with the
  receiver by label, raises when the two label sets differ, and otherwise puts the sums,
  in the order of \<open>other\<close>, into a new object. \<open>example_reindex_like\<close> refuses a result
  with a repeated label and otherwise reads the result's values in the receiver's order.
\<close>

definition Series_cls :: "'m cls" where
  "Series_cls = \<lparr>is_ABCSeries = True, is_ABCDataFrame = False, attrs = []\<rparr>"

definition DataFrame_cls :: "'m cls" where
  "DataFrame_cls = \<lparr>is_ABCSeries = False, is_ABCDataFrame = True, attrs = []\<rparr>"

definition object_cls :: "'m cls" where
  "object_cls = \<lparr>is_ABCSeries = False, is_ABCDataFrame = False, attrs = []\<rparr>"

type_synonym series = "(nat \<times> int) list"

definition example_reindex_like :: "series \<Rightarrow> series \<Rightarrow> string + series" where
  "example_reindex_like result_mgr self_mgr =
     (if \<not> distinct (map fst result_mgr) then Inl ''cannot reindex on a duplicate axis''
      else Inr (map (\<lambda>l. (l, case map_of result_mgr l of Some v \<Rightarrow> v | None \<Rightarrow> 0))
                  (map fst self_mgr)))"

definition example_add_call :: "(series, ref, series, string) binop" where
  "example_add_call h self other =
     (if set (map fst other) \<noteq> set (map fst (mgr (h self)))
      then (Inl ''operands could not be aligned'', h)
      else (Inr (Suc self),
            h(Suc self :=
                \<lparr>mgr = map (\<lambda>(l, b). (l, (case map_of (mgr (h self)) l of
                                             Some a \<Rightarrow> a | None \<Rightarrow> 0) + b)) other,
                 cacher = None\<rparr>)))"

definition example_function :: "string \<Rightarrow> (series, ref, series, string) pyfunction" where
  "example_function nm = \<lparr>func_name = nm, func_call = example_add_call\<rparr>"

definition example_heap :: "(series, ref) heap" where
  "example_heap = (\<lambda>r. \<lparr>mgr = [(0, 1), (1, 2), (2, 3)], cacher = Some 7\<rparr>)"

definition OpsMixin_cls :: "(series, ref, series, string) pyfunction cls" where
  "OpsMixin_cls =
     \<lparr>is_ABCSeries = True, is_ABCDataFrame = False,
      attrs = map (\<lambda>nm. (nm, example_function nm))
        [''__eq__'', ''__ne__'', ''__lt__'', ''__le__'', ''__gt__'', ''__ge__'',
         ''__and__'', ''__or__'', ''__xor__'',
         ''__add__'', ''__sub__'', ''__mul__'', ''__truediv__'', ''__floordiv__'',
         ''__mod__'', ''__divmod__'', ''__pow__'']\<rparr>"

section \<open>Stripping underscores\<close>

lemma dropWhile_unchanged: "xs = [] \<or> \<not> P (hd xs) \<Longrightarrow> dropWhile P xs = xs"
  by (cases xs) auto

lemma strip_dunder:
  assumes "n = [] \<or> (hd n \<noteq> CHR ''_'' \<and> last n \<noteq> CHR ''_'')"
  shows "strip ''__'' (''__'' @ n @ ''__'') = n"
proof (cases "n = []")
  case True
  then show ?thesis by (simp add: strip_def lstrip_def rstrip_def)
next
  case False
  with assms have h: "hd n \<noteq> CHR ''_''" and t: "last n \<noteq> CHR ''_''" by auto
  from False h have l: "lstrip ''__'' (''__'' @ n @ ''__'') = n @ ''__''"
    by (cases n) (auto simp: lstrip_def)
  from False t have r: "rstrip ''__'' (n @ ''__'') = n"
    by (cases "rev n") (auto simp: rstrip_def last_rev)
  show ?thesis unfolding strip_def l r ..
qed

lemma rstrip_last: "rstrip chars s \<noteq> [] \<Longrightarrow> last (rstrip chars s) \<notin> set chars"
proof -
  assume ne: "rstrip chars s \<noteq> []"
  let ?d = "dropWhile (\<lambda>c. c \<in> set chars) (rev s)"
  from ne have "?d \<noteq> []" by (simp add: rstrip_def)
  then have "hd ?d \<notin> set chars" using hd_dropWhile [of "\<lambda>c. c \<in> set chars" "rev s"] by simp
  moreover have "last (rstrip chars s) = hd ?d"
    using \<open>?d \<noteq> []\<close> by (simp add: rstrip_def last_rev)
  ultimately show ?thesis by simp
qed

lemma strip_never_trailing: "strip ''_'' k \<noteq> s @ ''_''"
proof
  assume e: "strip ''_'' k = s @ ''_''"
  then have "rstrip ''_'' (lstrip ''_'' k) \<noteq> []" by (simp add: strip_def)
  from rstrip_last [OF this] e show False by (simp add: strip_def)
qed

section \<open>The tables, evaluated\<close>

text \<open>
  The dictionary \<^verbatim>\<open>_create_methods\<close> returns, entry by entry in insertion order, for any
  class and any two factories; then the table of \<^verbatim>\<open>add_flex_arithmetic_methods\<close>.
\<close>

lemma create_methods_table:
  "create_methods c am cm =
     Inr ([(''add'', am operator_add), (''radd'', am radd), (''sub'', am operator_sub),
           (''mul'', am operator_mul), (''truediv'', am operator_truediv),
           (''floordiv'', am operator_floordiv), (''mod'', am operator_mod),
           (''pow'', am operator_pow), (''rmul'', am rmul), (''rsub'', am rsub),
           (''rtruediv'', am rtruediv), (''rfloordiv'', am rfloordiv), (''rpow'', am rpow),
           (''rmod'', am rmod), (''div'', am operator_truediv), (''rdiv'', am rtruediv)]
          @ (if is_ABCSeries c
             then [(''divmod'', am builtin_divmod), (''rdivmod'', am rdivmod)] else [])
          @ [(''eq'', cm operator_eq), (''ne'', cm operator_ne), (''lt'', cm operator_lt),
             (''gt'', cm operator_gt), (''le'', cm operator_le), (''ge'', cm operator_ge)])"
  by (simp add: create_methods_def dict_update_def dict_getitem_def strip_def lstrip_def rstrip_def)

lemma flex_new_methods_table:
  assumes "get_method_wrappers c = Inr (a, b)"
  shows "flex_new_methods ops c =
     Inr ([(''add'', ops a operator_add), (''radd'', ops a radd), (''sub'', ops a operator_sub),
           (''mul'', ops a operator_mul), (''truediv'', ops a operator_truediv),
           (''floordiv'', ops a operator_floordiv), (''mod'', ops a operator_mod),
           (''pow'', ops a operator_pow), (''rmul'', ops a rmul), (''rsub'', ops a rsub),
           (''rtruediv'', ops a rtruediv), (''rfloordiv'', ops a rfloordiv),
           (''rpow'', ops a rpow), (''rmod'', ops a rmod),
           (''div'', ops a operator_truediv), (''rdiv'', ops a rtruediv)]
          @ (if is_ABCSeries c
             then [(''divmod'', ops a builtin_divmod), (''rdivmod'', ops a rdivmod)] else [])
          @ [(''eq'', ops b operator_eq), (''ne'', ops b operator_ne),
             (''lt'', ops b operator_lt), (''gt'', ops b operator_gt),
             (''le'', ops b operator_le), (''ge'', ops b operator_ge),
             (''multiply'', ops a operator_mul), (''subtract'', ops a operator_sub),
             (''divide'', ops a operator_truediv)])"
  using assms
  by (simp add: flex_new_methods_def create_methods_table flex_aliases_def dict_getitem_def
      dict_update_def flex_opt_out_assert_def dict_contains_def)

lemma get_method_wrappers_cases:
  "get_method_wrappers c =
     (if is_ABCSeries c then Inr (flex_method_SERIES, flex_method_SERIES)
      else if is_ABCDataFrame c then Inr (flex_arith_method_FRAME, flex_comp_method_FRAME)
      else Inl (UnboundLocalError ''arith_flex''))"
  by (simp add: get_method_wrappers_def)

lemma supported_wrappers:
  assumes "is_ABCSeries c \<or> is_ABCDataFrame c"
  obtains a b where "get_method_wrappers c = Inr (a, b)"
  using assms by (cases "is_ABCSeries c") (auto simp: get_method_wrappers_cases)

section \<open>The registry lookup\<close>

text \<open>
  C8. \<^verbatim>\<open>_get_method_wrappers\<close> on a class that is neither a Series subclass nor a DataFrame
  subclass does not return a default pair: it raises (the \<open>UnboundLocalError\<close> of the
  unbound local \<^verbatim>\<open>arith_flex\<close>). For a Series subclass it returns the one factory
  \<^verbatim>\<open>flex_method_SERIES\<close> in both positions, and for a DataFrame subclass the two different
  factories \<^verbatim>\<open>flex_arith_method_FRAME\<close> and \<^verbatim>\<open>flex_comp_method_FRAME\<close>.
\<close>

theorem get_method_wrappers_by_kind:
  "(\<not> is_ABCSeries c \<and> \<not> is_ABCDataFrame c \<longrightarrow>
      get_method_wrappers c = Inl (UnboundLocalError ''arith_flex'')) \<and>
   (is_ABCSeries c \<longrightarrow>
      get_method_wrappers c = Inr (flex_method_SERIES, flex_method_SERIES)) \<and>
   (\<not> is_ABCSeries c \<and> is_ABCDataFrame c \<longrightarrow>
      get_method_wrappers c = Inr (flex_arith_method_FRAME, flex_comp_method_FRAME) \<and>
      flex_arith_method_FRAME \<noteq> flex_comp_method_FRAME)"
  by (simp add: get_method_wrappers_def)

theorem get_method_wrappers_by_kind_witness:
  "get_method_wrappers (object_cls :: unit cls) = Inl (UnboundLocalError ''arith_flex'') \<and>
   get_method_wrappers (Series_cls :: unit cls) = Inr (flex_method_SERIES, flex_method_SERIES) \<and>
   get_method_wrappers (DataFrame_cls :: unit cls)
     = Inr (flex_arith_method_FRAME, flex_comp_method_FRAME)"
proof -
  have o: "\<not> is_ABCSeries (object_cls :: unit cls) \<and> \<not> is_ABCDataFrame (object_cls :: unit cls)"
    by (simp add: object_cls_def)
  have s: "is_ABCSeries (Series_cls :: unit cls)"
    by (simp add: Series_cls_def)
  have d: "\<not> is_ABCSeries (DataFrame_cls :: unit cls) \<and> is_ABCDataFrame (DataFrame_cls :: unit cls)"
    by (simp add: DataFrame_cls_def)
  from get_method_wrappers_by_kind [of "object_cls :: unit cls"] o
  have 1: "get_method_wrappers (object_cls :: unit cls) = Inl (UnboundLocalError ''arith_flex'')"
    by blast
  from get_method_wrappers_by_kind [of "Series_cls :: unit cls"] s
  have 2: "get_method_wrappers (Series_cls :: unit cls)
             = Inr (flex_method_SERIES, flex_method_SERIES)"
    by blast
  from get_method_wrappers_by_kind [of "DataFrame_cls :: unit cls"] d
  have 3: "get_method_wrappers (DataFrame_cls :: unit cls)
             = Inr (flex_arith_method_FRAME, flex_comp_method_FRAME)"
    by blast
  from 1 2 3 show ?thesis by blast
qed

section \<open>The flex method table\<close>

text \<open>
  C4. For a supported class (a Series subclass or a DataFrame subclass) the flex table is
  built, and it has the keys \<open>divmod\<close> and \<open>rdivmod\<close> exactly when the class is a Series
  subclass; there they hold the wrapped builtin \<^verbatim>\<open>divmod\<close> and the wrapped \<^verbatim>\<open>rdivmod\<close>.
\<close>

theorem flex_divmod_iff_series:
  assumes "is_ABCSeries c \<or> is_ABCDataFrame c"
  shows "\<exists>tbl. flex_new_methods ops c = Inr tbl \<and>
           (dict_contains tbl ''divmod'' \<longleftrightarrow> is_ABCSeries c) \<and>
           (dict_contains tbl ''rdivmod'' \<longleftrightarrow> is_ABCSeries c) \<and>
           (is_ABCSeries c \<longrightarrow>
              map_of tbl ''divmod'' = Some (ops flex_method_SERIES builtin_divmod) \<and>
              map_of tbl ''rdivmod'' = Some (ops flex_method_SERIES rdivmod))"
proof -
  from assms obtain a b where w: "get_method_wrappers c = Inr (a, b)"
    by (rule supported_wrappers)
  have a: "is_ABCSeries c \<Longrightarrow> a = flex_method_SERIES"
    using w by (simp add: get_method_wrappers_cases)
  show ?thesis
    unfolding flex_new_methods_table [OF w] using a
    by (cases "is_ABCSeries c") (simp_all add: dict_contains_def)
qed

theorem flex_divmod_iff_series_witness:
  "(\<exists>tbl. flex_new_methods Pair (Series_cls :: (wrapper \<times> primitive) cls) = Inr tbl \<and>
      dict_contains tbl ''divmod'' \<and> dict_contains tbl ''rdivmod'' \<and>
      map_of tbl ''divmod'' = Some (flex_method_SERIES, builtin_divmod) \<and>
      map_of tbl ''rdivmod'' = Some (flex_method_SERIES, rdivmod)) \<and>
   (\<exists>tbl. flex_new_methods Pair (DataFrame_cls :: (wrapper \<times> primitive) cls) = Inr tbl \<and>
      \<not> dict_contains tbl ''divmod'' \<and> \<not> dict_contains tbl ''rdivmod'')"
proof -
  have s: "is_ABCSeries (Series_cls :: (wrapper \<times> primitive) cls)
             \<or> is_ABCDataFrame (Series_cls :: (wrapper \<times> primitive) cls)"
    by (simp add: Series_cls_def)
  have d: "is_ABCSeries (DataFrame_cls :: (wrapper \<times> primitive) cls)
             \<or> is_ABCDataFrame (DataFrame_cls :: (wrapper \<times> primitive) cls)"
    by (simp add: DataFrame_cls_def)
  from flex_divmod_iff_series [OF s, of Pair] flex_divmod_iff_series [OF d, of Pair]
  show ?thesis by (simp add: Series_cls_def DataFrame_cls_def)
qed

text \<open>
  C5. With \<open>arith\<close> and \<open>compare\<close> the two factories the lookup selected for the class,
  the flex table holds, for each of add, sub, mul, truediv, floordiv, mod and pow, the
  entry \<open>name\<close> with the arithmetic factory applied to the canonical primitive and the
  entry \<open>rname\<close> with it applied to the reflected primitive; for each of eq, ne, lt, gt, le
  and ge it holds the entry \<open>name\<close> with the comparison factory applied to the primitive,
  and none of the keys req, rne, rlt, rgt, rle, rge.
\<close>

theorem flex_arith_and_comparison_entries:
  assumes "get_method_wrappers c = Inr (arith, compare)"
  shows "\<exists>tbl. flex_new_methods ops c = Inr tbl \<and>
           map_of tbl ''add'' = Some (ops arith operator_add) \<and>
           map_of tbl ''radd'' = Some (ops arith radd) \<and>
           map_of tbl ''sub'' = Some (ops arith operator_sub) \<and>
           map_of tbl ''rsub'' = Some (ops arith rsub) \<and>
           map_of tbl ''mul'' = Some (ops arith operator_mul) \<and>
           map_of tbl ''rmul'' = Some (ops arith rmul) \<and>
           map_of tbl ''truediv'' = Some (ops arith operator_truediv) \<and>
           map_of tbl ''rtruediv'' = Some (ops arith rtruediv) \<and>
           map_of tbl ''floordiv'' = Some (ops arith operator_floordiv) \<and>
           map_of tbl ''rfloordiv'' = Some (ops arith rfloordiv) \<and>
           map_of tbl ''mod'' = Some (ops arith operator_mod) \<and>
           map_of tbl ''rmod'' = Some (ops arith rmod) \<and>
           map_of tbl ''pow'' = Some (ops arith operator_pow) \<and>
           map_of tbl ''rpow'' = Some (ops arith rpow) \<and>
           map_of tbl ''eq'' = Some (ops compare operator_eq) \<and>
           map_of tbl ''ne'' = Some (ops compare operator_ne) \<and>
           map_of tbl ''lt'' = Some (ops compare operator_lt) \<and>
           map_of tbl ''gt'' = Some (ops compare operator_gt) \<and>
           map_of tbl ''le'' = Some (ops compare operator_le) \<and>
           map_of tbl ''ge'' = Some (ops compare operator_ge) \<and>
           list_all (\<lambda>k. \<not> dict_contains tbl k)
             [''req'', ''rne'', ''rlt'', ''rgt'', ''rle'', ''rge'']"
  unfolding flex_new_methods_table [OF assms]
  by (cases "is_ABCSeries c") (simp_all add: dict_contains_def)

theorem flex_arith_and_comparison_entries_witness:
  "\<exists>tbl. flex_new_methods Pair (DataFrame_cls :: (wrapper \<times> primitive) cls) = Inr tbl \<and>
     map_of tbl ''sub'' = Some (flex_arith_method_FRAME, operator_sub) \<and>
     map_of tbl ''rsub'' = Some (flex_arith_method_FRAME, rsub) \<and>
     map_of tbl ''eq'' = Some (flex_comp_method_FRAME, operator_eq) \<and>
     \<not> dict_contains tbl ''req''"
proof -
  have w: "get_method_wrappers (DataFrame_cls :: (wrapper \<times> primitive) cls)
             = Inr (flex_arith_method_FRAME, flex_comp_method_FRAME)"
    by (simp add: get_method_wrappers_cases DataFrame_cls_def)
  from flex_arith_and_comparison_entries [OF w, of Pair]
  show ?thesis by auto
qed

text \<open>
  C6. In the flex table of a supported class each alias holds the very entry of its
  canonical name: multiply that of mul, subtract that of sub, divide and div that of
  truediv, rdiv that of rtruediv. So whatever calling an entry does (\<open>call_entry\<close>), the
  alias and the canonical name do the same on all operands.
\<close>

theorem flex_aliases_exact:
  assumes "is_ABCSeries c \<or> is_ABCDataFrame c"
  shows "\<exists>tbl mul_entry sub_entry truediv_entry rtruediv_entry.
           flex_new_methods ops c = Inr tbl \<and>
           map_of tbl ''mul'' = Some mul_entry \<and> map_of tbl ''multiply'' = Some mul_entry \<and>
           map_of tbl ''sub'' = Some sub_entry \<and> map_of tbl ''subtract'' = Some sub_entry \<and>
           map_of tbl ''truediv'' = Some truediv_entry \<and>
           map_of tbl ''divide'' = Some truediv_entry \<and>
           map_of tbl ''div'' = Some truediv_entry \<and>
           map_of tbl ''rtruediv'' = Some rtruediv_entry \<and>
           map_of tbl ''rdiv'' = Some rtruediv_entry \<and>
           (\<forall>a b.
              call_entry (the (map_of tbl ''multiply'')) a b
                = call_entry (the (map_of tbl ''mul'')) a b \<and>
              call_entry (the (map_of tbl ''subtract'')) a b
                = call_entry (the (map_of tbl ''sub'')) a b \<and>
              call_entry (the (map_of tbl ''divide'')) a b
                = call_entry (the (map_of tbl ''truediv'')) a b \<and>
              call_entry (the (map_of tbl ''div'')) a b
                = call_entry (the (map_of tbl ''truediv'')) a b \<and>
              call_entry (the (map_of tbl ''rdiv'')) a b
                = call_entry (the (map_of tbl ''rtruediv'')) a b)"
proof -
  from assms obtain a b where w: "get_method_wrappers c = Inr (a, b)"
    by (rule supported_wrappers)
  show ?thesis
    unfolding flex_new_methods_table [OF w]
    by (cases "is_ABCSeries c") simp_all
qed

theorem flex_aliases_exact_witness:
  "\<exists>tbl. flex_new_methods Pair (Series_cls :: (wrapper \<times> primitive) cls) = Inr tbl \<and>
     map_of tbl ''multiply'' = Some (flex_method_SERIES, operator_mul) \<and>
     map_of tbl ''subtract'' = Some (flex_method_SERIES, operator_sub) \<and>
     map_of tbl ''divide'' = Some (flex_method_SERIES, operator_truediv) \<and>
     map_of tbl ''div'' = Some (flex_method_SERIES, operator_truediv) \<and>
     map_of tbl ''rdiv'' = Some (flex_method_SERIES, rtruediv)"
proof -
  have s: "is_ABCSeries (Series_cls :: (wrapper \<times> primitive) cls)
             \<or> is_ABCDataFrame (Series_cls :: (wrapper \<times> primitive) cls)"
    by (simp add: Series_cls_def)
  have w: "get_method_wrappers (Series_cls :: (wrapper \<times> primitive) cls)
             = Inr (flex_method_SERIES, flex_method_SERIES)"
    by (simp add: get_method_wrappers_cases Series_cls_def)
  from flex_aliases_exact [OF s, of Pair "\<lambda>m a b. ()"]
  show ?thesis
    unfolding flex_new_methods_table [OF w] by (simp add: Series_cls_def)
qed

text \<open>
  The assertion of line 128 as it is written: it fails exactly on a table that holds one
  of the three names it tests, \<open>ror_\<close>, \<open>rxor\<close> and \<open>rand_\<close>.
\<close>

theorem flex_opt_out_assert_fails_iff:
  "flex_opt_out_assert t = Inl AssertionError \<longleftrightarrow>
     dict_contains t ''ror_'' \<or> dict_contains t ''rxor'' \<or> dict_contains t ''rand_''"
  by (simp add: flex_opt_out_assert_def)

text \<open>For no class at all does the build end in the assertion's failure.\<close>

lemma flex_assert_never_fires: "flex_new_methods ops c \<noteq> Inl AssertionError"
proof (cases "is_ABCSeries c \<or> is_ABCDataFrame c")
  case True
  then obtain a b where w: "get_method_wrappers c = Inr (a, b)"
    by (rule supported_wrappers)
  show ?thesis unfolding flex_new_methods_table [OF w] by simp
next
  case False
  then show ?thesis
    by (simp add: flex_new_methods_def get_method_wrappers_cases)
qed



text \<open>
  No key that line 178 produces ends in an underscore, so \<open>ror_\<close> and \<open>rand_\<close> can never
  be keys of the dictionary \<^verbatim>\<open>_create_methods\<close> returns, whatever it registers.
\<close>

theorem stripped_key_is_not_asserted_name:
  "strip ''_'' k \<noteq> ''ror_'' \<and> strip ''_'' k \<noteq> ''rand_''"
  using strip_never_trailing [of k "''ror''"] strip_never_trailing [of k "''rand''"] by simp

section \<open>The in-place wrapper\<close>

lemma wrap_call [simp]:
  "func_call (wrap_inplace_method r m) = wrap_inplace_method_f r m"
  by (simp add: wrap_inplace_method_def)

lemma wrap_name:
  "func_name (wrap_inplace_method r m) = ''__i'' @ strip ''__'' (func_name m) @ ''__''"
  by (simp add: wrap_inplace_method_def)

lemma reset_cacher_mgr [simp]: "mgr (reset_cacher h x r) = mgr (h r)"
  by (simp add: reset_cacher_def)

text \<open>The example container: a successful add, and two operands that make a step raise.\<close>

lemma example_heap_mgr: "mgr (example_heap r) = [(0, 1), (1, 2), (2, 3)]"
  by (simp add: example_heap_def)

lemma example_add_succeeds:
  "func_call (example_function ''__add__'') example_heap 0 [(0, 1), (1, 1), (2, 1)]
     = (Inr 1, example_heap(1 := \<lparr>mgr = [(0, 2), (1, 3), (2, 4)], cacher = None\<rparr>))"
  by (simp add: example_function_def example_add_call_def example_heap_def)

lemma example_add_raises:
  "func_call (example_function ''__add__'') example_heap 0 [(5, 1)]
     = (Inl ''operands could not be aligned'', example_heap)"
  by (simp add: example_function_def example_add_call_def example_heap_def)

text \<open>
  C9. When the wrapped method raises, the in-place operation raises the same exception
  and leaves the store exactly as that one invocation of the method left it: nothing is
  caught, nothing is added, and the method is not invoked a second time.
\<close>

theorem inplace_propagates_method_error:
  assumes "func_call method h self other = (Inl exn, h1)"
  shows "func_call (wrap_inplace_method reindex_like method) h self other = (Inl exn, h1)"
  using assms by (simp add: wrap_inplace_method_f_def)

theorem inplace_propagates_method_error_witness:
  "func_call (wrap_inplace_method example_reindex_like (example_function ''__add__''))
     example_heap 0 [(5, 1)]
     = (Inl ''operands could not be aligned'', example_heap)"
  by (rule inplace_propagates_method_error [OF example_add_raises])

text \<open>
  C10. When the wrapped method raises, the receiver after the in-place call is the
  receiver as the method left it: the adapter has neither reset its cacher nor committed
  anything into its storage. If the method itself did not touch the receiver, its cacher
  and its storage are those from before the call.
\<close>

theorem inplace_failure_leaves_receiver:
  assumes "func_call method h self other = (Inl exn, h1)"
  shows "snd (func_call (wrap_inplace_method reindex_like method) h self other) self = h1 self \<and>
         (h1 self = h self \<longrightarrow>
            cacher (snd (func_call (wrap_inplace_method reindex_like method) h self other) self)
              = cacher (h self) \<and>
            mgr (snd (func_call (wrap_inplace_method reindex_like method) h self other) self)
              = mgr (h self))"
  using assms by (simp add: wrap_inplace_method_f_def)

theorem inplace_failure_leaves_receiver_witness:
  "cacher (snd (func_call
             (wrap_inplace_method example_reindex_like (example_function ''__add__''))
             example_heap 0 [(5, 1)]) 0) = Some 7 \<and>
   mgr (snd (func_call
             (wrap_inplace_method example_reindex_like (example_function ''__add__''))
             example_heap 0 [(5, 1)]) 0) = [(0, 1), (1, 2), (2, 3)]"
proof -
  have same: "example_heap 0 = example_heap 0" ..
  from inplace_failure_leaves_receiver [OF example_add_raises, of example_reindex_like] same
  show ?thesis by (simp add: example_heap_def)
qed

text \<open>
  C2, as the code has it. When the wrapped method succeeds and the realignment of its
  result to the receiver succeeds, the in-place operation returns the receiver's own
  reference, and not the reference of the intermediate result when that is another object.
\<close>

theorem inplace_returns_receiver:
  assumes "func_call method h self other = (Inr result, h1)"
      and "reindex_like (mgr (h1 result)) (mgr (h1 self)) = Inr realigned"
  shows "fst (func_call (wrap_inplace_method reindex_like method) h self other) = Inr self \<and>
         (result \<noteq> self \<longrightarrow>
            fst (func_call (wrap_inplace_method reindex_like method) h self other)
              \<noteq> Inr result)"
  using assms by (simp add: wrap_inplace_method_f_def)

theorem inplace_returns_receiver_witness:
  "fst (func_call (wrap_inplace_method example_reindex_like (example_function ''__add__''))
          example_heap 0 [(0, 1), (1, 1), (2, 1)]) = Inr 0"
proof -
  have aligned:
    "example_reindex_like
       (mgr ((example_heap(1 := \<lparr>mgr = [(0, 2), (1, 3), (2, 4)], cacher = None\<rparr>)) 1))
       (mgr ((example_heap(1 := \<lparr>mgr = [(0, 2), (1, 3), (2, 4)], cacher = None\<rparr>)) 0))
     = Inr [(0, 2), (1, 3), (2, 4)]"
    by (simp add: example_reindex_like_def example_heap_mgr)
  from inplace_returns_receiver
        [where reindex_like = example_reindex_like, OF example_add_succeeds aligned]
  show ?thesis by simp
qed

text \<open>
  C2, as stated, fails. The add below succeeds and returns a new object (reference 1)
  whose labels repeat; realigning it to the receiver raises, and the in-place operation
  raises with it instead of returning the receiver.
\<close>

theorem inplace_raises_on_alignment_fault:
  "fst (func_call (example_function ''__add__'') example_heap 0
          [(0, 1), (0, 1), (1, 1), (2, 1)]) = Inr 1 \<and>
   fst (func_call (wrap_inplace_method example_reindex_like (example_function ''__add__''))
          example_heap 0 [(0, 1), (0, 1), (1, 1), (2, 1)])
     = Inl ''cannot reindex on a duplicate axis''"
  by (simp add: wrap_inplace_method_f_def example_function_def example_add_call_def
      example_heap_def example_reindex_like_def reset_cacher_def update_inplace_def)

text \<open>Whenever the in-place operation returns at all, what it returns is the receiver.\<close>

lemma inplace_returns_only_receiver:
  "fst (func_call (wrap_inplace_method reindex_like method) h self other) = Inr r \<Longrightarrow> r = self"
  by (auto simp: wrap_inplace_method_f_def Let_def split: prod.splits sum.splits)



section \<open>The in-place table\<close>

text \<open>
  The dictionary of \<^verbatim>\<open>add_special_arithmetic_methods\<close>, entry by entry, for a class that
  has the ten attributes it reads.
\<close>

lemma special_new_methods_table:
  assumes "getattr c ''__add__'' = Inr m_add" "getattr c ''__sub__'' = Inr m_sub"
    "getattr c ''__mul__'' = Inr m_mul" "getattr c ''__truediv__'' = Inr m_truediv"
    "getattr c ''__floordiv__'' = Inr m_floordiv" "getattr c ''__mod__'' = Inr m_mod"
    "getattr c ''__pow__'' = Inr m_pow" "getattr c ''__and__'' = Inr m_and"
    "getattr c ''__or__'' = Inr m_or" "getattr c ''__xor__'' = Inr m_xor"
  shows "special_new_methods r c =
    Inr [(''__iadd__'', wrap_inplace_method r m_add),
         (''__isub__'', wrap_inplace_method r m_sub),
         (''__imul__'', wrap_inplace_method r m_mul),
         (''__itruediv__'', wrap_inplace_method r m_truediv),
         (''__ifloordiv__'', wrap_inplace_method r m_floordiv),
         (''__imod__'', wrap_inplace_method r m_mod),
         (''__ipow__'', wrap_inplace_method r m_pow),
         (''__iand__'', wrap_inplace_method r m_and),
         (''__ior__'', wrap_inplace_method r m_or),
         (''__ixor__'', wrap_inplace_method r m_xor)]"
  using assms by (simp add: special_new_methods_def dict_update_def)

lemma OpsMixin_getattr:
  "list_all (\<lambda>nm. getattr OpsMixin_cls nm = Inr (example_function nm))
     [''__add__'', ''__sub__'', ''__mul__'', ''__truediv__'', ''__floordiv__'', ''__mod__'',
      ''__pow__'', ''__and__'', ''__or__'', ''__xor__'']"
  by (simp add: getattr_def OpsMixin_cls_def)

text \<open>
  C3, as the code has it. For a class that has the ten methods \<^verbatim>\<open>__add__\<close>, ...,
  \<^verbatim>\<open>__xor__\<close> under their own names, the in-place table has exactly ten entries, the keys
  \<^verbatim>\<open>__iadd__\<close>, ..., \<^verbatim>\<open>__ixor__\<close>; the entry \<^verbatim>\<open>__i<op>__\<close> is the wrapper of
  \<^verbatim>\<open>cls.__<op>__\<close> and carries the name \<^verbatim>\<open>__i<op>__\<close>; and there is no in-place key for a
  comparison or for divmod.
\<close>

theorem special_new_methods_exact:
  assumes "\<forall>nm \<in> set [''add'', ''sub'', ''mul'', ''truediv'', ''floordiv'', ''mod'', ''pow'',
                        ''and'', ''or'', ''xor''].
             \<exists>m. getattr c (''__'' @ nm @ ''__'') = Inr m \<and> func_name m = ''__'' @ nm @ ''__''"
  shows "\<exists>tbl. special_new_methods r c = Inr tbl \<and>
           map fst tbl =
             [''__iadd__'', ''__isub__'', ''__imul__'', ''__itruediv__'', ''__ifloordiv__'',
              ''__imod__'', ''__ipow__'', ''__iand__'', ''__ior__'', ''__ixor__''] \<and>
           length tbl = 10 \<and>
           (\<forall>nm \<in> set [''add'', ''sub'', ''mul'', ''truediv'', ''floordiv'', ''mod'', ''pow'',
                        ''and'', ''or'', ''xor''].
              \<exists>m. getattr c (''__'' @ nm @ ''__'') = Inr m \<and>
                  map_of tbl (''__i'' @ nm @ ''__'') = Some (wrap_inplace_method r m) \<and>
                  func_name (wrap_inplace_method r m) = ''__i'' @ nm @ ''__'') \<and>
           list_all (\<lambda>nm. \<not> dict_contains tbl (''__i'' @ nm @ ''__''))
             [''eq'', ''ne'', ''lt'', ''gt'', ''le'', ''ge'', ''divmod'']"
proof -
  from assms obtain m_add m_sub m_mul m_truediv m_floordiv m_mod m_pow m_and m_or m_xor
    where g: "getattr c ''__add__'' = Inr m_add" "getattr c ''__sub__'' = Inr m_sub"
      "getattr c ''__mul__'' = Inr m_mul" "getattr c ''__truediv__'' = Inr m_truediv"
      "getattr c ''__floordiv__'' = Inr m_floordiv" "getattr c ''__mod__'' = Inr m_mod"
      "getattr c ''__pow__'' = Inr m_pow" "getattr c ''__and__'' = Inr m_and"
      "getattr c ''__or__'' = Inr m_or" "getattr c ''__xor__'' = Inr m_xor"
    and n: "func_name m_add = ''__add__''" "func_name m_sub = ''__sub__''"
      "func_name m_mul = ''__mul__''" "func_name m_truediv = ''__truediv__''"
      "func_name m_floordiv = ''__floordiv__''" "func_name m_mod = ''__mod__''"
      "func_name m_pow = ''__pow__''" "func_name m_and = ''__and__''"
      "func_name m_or = ''__or__''" "func_name m_xor = ''__xor__''"
    by auto
  show ?thesis
    unfolding special_new_methods_table [OF g]
    by (simp add: g n wrap_name strip_def lstrip_def rstrip_def dict_contains_def)
qed

theorem special_new_methods_exact_witness:
  "\<exists>tbl. special_new_methods example_reindex_like OpsMixin_cls = Inr tbl \<and>
     length tbl = 10 \<and>
     map_of tbl ''__iadd__''
       = Some (wrap_inplace_method example_reindex_like (example_function ''__add__'')) \<and>
     func_name (wrap_inplace_method example_reindex_like (example_function ''__add__''))
       = ''__iadd__'' \<and>
     \<not> dict_contains tbl ''__ieq__'' \<and> \<not> dict_contains tbl ''__idivmod__''"
proof -
  have attrs:
    "\<forall>nm \<in> set [''add'', ''sub'', ''mul'', ''truediv'', ''floordiv'', ''mod'', ''pow'',
                   ''and'', ''or'', ''xor''].
       \<exists>m. getattr OpsMixin_cls (''__'' @ nm @ ''__'') = Inr m \<and>
           func_name m = ''__'' @ nm @ ''__''"
    by (simp add: getattr_def OpsMixin_cls_def example_function_def)
  have add: "getattr OpsMixin_cls ''__add__'' = Inr (example_function ''__add__'')"
    by (simp add: getattr_def OpsMixin_cls_def)
  from special_new_methods_exact [OF attrs, of example_reindex_like] add
  show ?thesis by auto
qed

text \<open>
  C3, as stated, fails on the count: for a class with all the operator methods of
  \<^verbatim>\<open>OpsMixin\<close> the in-place table has ten entries, not fourteen.
\<close>

theorem special_new_methods_not_fourteen:
  "map_sum id length (special_new_methods example_reindex_like OpsMixin_cls) = Inr 10 \<and>
   map_sum id length (special_new_methods example_reindex_like OpsMixin_cls) \<noteq> Inr 14 \<and>
   map_sum id (map fst) (special_new_methods example_reindex_like OpsMixin_cls) =
     Inr [''__iadd__'', ''__isub__'', ''__imul__'', ''__itruediv__'', ''__ifloordiv__'',
          ''__imod__'', ''__ipow__'', ''__iand__'', ''__ior__'', ''__ixor__'']"
proof -
  note g = OpsMixin_getattr [simplified]
  have "special_new_methods example_reindex_like OpsMixin_cls = Inr
        [(''__iadd__'', wrap_inplace_method example_reindex_like (example_function ''__add__'')),
         (''__isub__'', wrap_inplace_method example_reindex_like (example_function ''__sub__'')),
         (''__imul__'', wrap_inplace_method example_reindex_like (example_function ''__mul__'')),
         (''__itruediv__'', wrap_inplace_method example_reindex_like (example_function ''__truediv__'')),
         (''__ifloordiv__'', wrap_inplace_method example_reindex_like (example_function ''__floordiv__'')),
         (''__imod__'', wrap_inplace_method example_reindex_like (example_function ''__mod__'')),
         (''__ipow__'', wrap_inplace_method example_reindex_like (example_function ''__pow__'')),
         (''__iand__'', wrap_inplace_method example_reindex_like (example_function ''__and__'')),
         (''__ior__'', wrap_inplace_method example_reindex_like (example_function ''__or__'')),
         (''__ixor__'', wrap_inplace_method example_reindex_like (example_function ''__xor__''))]"
    by (rule special_new_methods_table) (simp_all add: g)
  then show ?thesis by simp
qed

end
